theory Spec2Isabelle
  imports Complex_Main "HOL-Library.Log_Nat"
begin

section \<open>JavaScript values\<close>

text \<open>
  \<open>Server.js\<close> is dynamically typed: a cart entry, an action payload or a request body
  is whatever value the caller supplied. The development therefore works over a datatype
  of JavaScript values rather than over typed records, and writes out what the language
  does at each operation the source performs (property access, \<open>!==\<close>, \<open>+\<close>,
  \<open>JSON.stringify\<close>).
\<close>

subsection \<open>Numbers\<close>

text \<open>
  A JavaScript number is an IEEE 754 binary64 value. A finite value is kept as the
  rational it denotes (\<open>Finite 0\<close> is \<open>+0\<close>); the other values are the negative
  zero, the two infinities and NaN.
\<close>

datatype jsnum = Finite rat | NegZero | PosInf | NegInf | NaN

text \<open>
  \<open>floor_log2 x\<close> is the exponent \<open>e\<close> with \<open>2 ^ e \<le> x < 2 ^ (e + 1)\<close> for a
  positive rational \<open>x\<close>, computed from the bit lengths of numerator and denominator.
\<close>

definition floor_log2 :: "rat \<Rightarrow> int" where
  "floor_log2 x =
     (let (p, q) = quotient_of x;
          k = bitlen p - bitlen q
      in if 2 powi k \<le> x then k else k - 1)"

text \<open>Rounding of an integer-valued quotient to the nearest integer, ties to even.\<close>

definition round_half_even :: "rat \<Rightarrow> int" where
  "round_half_even x =
     (let f = \<lfloor>x\<rfloor>; d = x - of_int f
      in if d < 1 / 2 then f
         else if 1 / 2 < d then f + 1
         else if even f then f else f + 1)"

text \<open>
  \<open>round64\<close> maps an exact rational result to the binary64 value that the default
  rounding mode (to nearest, ties to even) delivers: 53 significant bits, the least
  exponent of a normal number is \<open>-1022\<close> (below it the spacing stays \<open>2 ^ -1074\<close>),
  and a result of magnitude \<open>2 ^ 1024\<close> or more is an infinity.
\<close>

definition round64 :: "rat \<Rightarrow> jsnum" where
  "round64 x =
     (if x = 0 then Finite 0
      else
        let e = max (floor_log2 \<bar>x\<bar>) (- 1022);
            q = 2 powi (e - 52);
            y = of_int (round_half_even (x / q)) * q
        in if 2 powi 1024 \<le> \<bar>y\<bar> then (if 0 < x then PosInf else NegInf)
           else Finite y)"

text \<open>The \<open>+\<close> of two numbers (ECMAScript \<open>Number::add\<close>).\<close>

fun num_add :: "jsnum \<Rightarrow> jsnum \<Rightarrow> jsnum" where
  "num_add NaN _ = NaN"
| "num_add _ NaN = NaN"
| "num_add PosInf NegInf = NaN"
| "num_add NegInf PosInf = NaN"
| "num_add PosInf _ = PosInf"
| "num_add _ PosInf = PosInf"
| "num_add NegInf _ = NegInf"
| "num_add _ NegInf = NegInf"
| "num_add NegZero NegZero = NegZero"
| "num_add NegZero (Finite b) = Finite b"
| "num_add (Finite a) NegZero = Finite a"
| "num_add (Finite a) (Finite b) = round64 (a + b)"

text \<open>
  Equality of two numbers as \<open>===\<close> sees it (\<open>Number::equal\<close>): NaN equals nothing,
  itself included, and the two zeros are equal.
\<close>

fun num_equal :: "jsnum \<Rightarrow> jsnum \<Rightarrow> bool" where
  "num_equal NaN _ = False"
| "num_equal _ NaN = False"
| "num_equal NegZero b = (b = NegZero \<or> b = Finite 0)"
| "num_equal a NegZero = (a = Finite 0)"
| "num_equal a b = (a = b)"

subsection \<open>Values\<close>

text \<open>
  The values the program handles: the primitives, and objects and arrays of data
  properties. An object or array carries its identity (a reference number), because
  \<open>===\<close> compares objects by reference; its contents never change, since the source
  mutates no object in place. The property list of an object is in enumeration order.
  Functions, symbols, accessor properties and exotic objects are not part of the
  fragment.
\<close>

datatype jsval =
    JUndefined
  | JNull
  | JBool bool
  | JNum jsnum
  | JStr string
  | JObj nat "(string \<times> jsval) list"
  | JArr nat "jsval list"

text \<open>
  What stops an evaluation: a JavaScript exception, a rejected promise of one of the
  collaborators, or an input on which the development does not follow the platform
  (\<open>NotModelled\<close>, for instance the decimal rendering of a number in a string
  concatenation). A result \<open>NotModelled\<close> says nothing about what the program does on
  that input; no property below is stated for such a result.
\<close>

datatype abrupt =
    TypeError
  | NetworkError
  | ValidationError
  | BackendError
  | NotModelled

text \<open>Strict equality \<open>===\<close>; \<open>a !== b\<close> is its negation.\<close>

fun strict_eq :: "jsval \<Rightarrow> jsval \<Rightarrow> bool" where
  "strict_eq JUndefined JUndefined = True"
| "strict_eq JNull JNull = True"
| "strict_eq (JBool a) (JBool b) = (a = b)"
| "strict_eq (JNum a) (JNum b) = num_equal a b"
| "strict_eq (JStr a) (JStr b) = (a = b)"
| "strict_eq (JObj r _) (JObj r' _) = (r = r')"
| "strict_eq (JArr r _) (JArr r' _) = (r = r')"
| "strict_eq _ _ = False"

text \<open>
  Reading the property \<open>k\<close> of a value, \<open>v.k\<close>: a \<open>TypeError\<close> on
  \<open>undefined\<close> and \<open>null\<close>, the own data property of an object, and
  \<open>undefined\<close> where there is none. The source reads the keys \<open>id\<close> and
  \<open>price\<close> only, which no built-in prototype defines, so the prototype chain adds
  nothing.
\<close>

fun get_prop :: "jsval \<Rightarrow> string \<Rightarrow> abrupt + jsval" where
  "get_prop JUndefined k = Inl TypeError"
| "get_prop JNull k = Inl TypeError"
| "get_prop (JObj r kvs) k = Inr (case map_of kvs k of None \<Rightarrow> JUndefined | Some v \<Rightarrow> v)"
| "get_prop _ k = Inr JUndefined"

text \<open>\<open>Array.prototype.filter\<close> with a callback that may throw: elements are visited
  in index order and the first exception ends the call.\<close>

fun filter_arr :: "('a \<Rightarrow> abrupt + bool) \<Rightarrow> 'a list \<Rightarrow> abrupt + 'a list" where
  "filter_arr f [] = Inr []"
| "filter_arr f (x # xs) =
     (case f x of
        Inl e \<Rightarrow> Inl e
      | Inr b \<Rightarrow>
          (case filter_arr f xs of
             Inl e \<Rightarrow> Inl e
           | Inr ys \<Rightarrow> Inr (if b then x # ys else ys)))"

section \<open>The cart store (lines 38--62)\<close>

definition ADD_TO_CART :: string where
  "ADD_TO_CART = ''ADD_TO_CART''"

definition REMOVE_FROM_CART :: string where
  "REMOVE_FROM_CART = ''REMOVE_FROM_CART''"

definition EMPTY_CART :: string where
  "EMPTY_CART = ''EMPTY_CART''"

text \<open>
  An action is an object with a \<open>type\<close> and, for two of the three creators, a
  \<open>payload\<close>; reading the payload of an action that has none gives \<open>undefined\<close>.
\<close>

record action =
  atype :: jsval
  payload :: jsval

definition addToCart :: "jsval \<Rightarrow> action" where
  "addToCart product = \<lparr>atype = JStr ADD_TO_CART, payload = product\<rparr>"

definition removeFromCart :: "jsval \<Rightarrow> action" where
  "removeFromCart productId = \<lparr>atype = JStr REMOVE_FROM_CART, payload = productId\<rparr>"

definition emptyCart :: action where
  "emptyCart = \<lparr>atype = JStr EMPTY_CART, payload = JUndefined\<rparr>"

text \<open>
  The state object. The reducer rebuilds it with \<open>{ ...state, cart: \<dots> }\<close>, which
  keeps every other property; the record's extension slot stands for those.
\<close>

record state =
  cart :: "jsval list"

definition initialState :: state where
  "initialState = \<lparr>cart = []\<rparr>"

text \<open>
  The reducer. The \<open>switch\<close> compares \<open>action.type\<close> with each constant by
  \<open>===\<close>, in the order of the source. The filter callback of the second case reads
  \<open>item.id\<close>, which throws on an entry that is \<open>undefined\<close> or \<open>null\<close>. The
  default value of the first parameter applies when the store is created and is the
  constant \<open>initialState\<close>.
\<close>

definition reducer :: "'a state_scheme \<Rightarrow> action \<Rightarrow> abrupt + 'a state_scheme" where
  "reducer st a =
     (if strict_eq (atype a) (JStr ADD_TO_CART) then
        Inr (st\<lparr>cart := cart st @ [payload a]\<rparr>)
      else if strict_eq (atype a) (JStr REMOVE_FROM_CART) then
        (case filter_arr
                (\<lambda>item. case get_prop item ''id'' of
                           Inl e \<Rightarrow> Inl e
                         | Inr v \<Rightarrow> Inr (\<not> strict_eq v (payload a)))
                (cart st) of
           Inl e \<Rightarrow> Inl e
         | Inr items \<Rightarrow> Inr (st\<lparr>cart := items\<rparr>))
      else if strict_eq (atype a) (JStr EMPTY_CART) then
        Inr (st\<lparr>cart := []\<rparr>)
      else Inr st)"

text \<open>Dispatching a sequence of actions to the store, one after the other; an
  exception thrown by the reducer ends the sequence.\<close>

fun dispatch_all :: "'a state_scheme \<Rightarrow> action list \<Rightarrow> abrupt + 'a state_scheme" where
  "dispatch_all st [] = Inr st"
| "dispatch_all st (a # as) =
     (case reducer st a of
        Inl e \<Rightarrow> Inl e
      | Inr st' \<Rightarrow> dispatch_all st' as)"

text \<open>
  The reducer semantics in the words of the specification, for comparison: a cart
  operation is one of the three calls, adding appends the product at the end, removing
  keeps the entries whose id differs from the given one, emptying gives the empty
  sequence. \<open>entry_id\<close> is the \<open>id\<close> of an entry, \<open>undefined\<close> where it has none.
\<close>

datatype cart_op = Add jsval | Remove jsval | Empty

fun action_of :: "cart_op \<Rightarrow> action" where
  "action_of (Add product) = addToCart product"
| "action_of (Remove productId) = removeFromCart productId"
| "action_of Empty = emptyCart"

fun entry_id :: "jsval \<Rightarrow> jsval" where
  "entry_id (JObj r kvs) = (case map_of kvs ''id'' of None \<Rightarrow> JUndefined | Some v \<Rightarrow> v)"
| "entry_id _ = JUndefined"

fun spec_step :: "jsval list \<Rightarrow> cart_op \<Rightarrow> jsval list" where
  "spec_step c (Add product) = c @ [product]"
| "spec_step c (Remove productId) = filter (\<lambda>item. \<not> strict_eq (entry_id item) productId) c"
| "spec_step c Empty = []"

text \<open>A value that has properties to read: anything but \<open>undefined\<close> and \<open>null\<close>.\<close>

fun readable :: "jsval \<Rightarrow> bool" where
  "readable JUndefined = False"
| "readable JNull = False"
| "readable _ = True"

fun adds_readable :: "cart_op \<Rightarrow> bool" where
  "adds_readable (Add product) = readable product"
| "adds_readable _ = True"

section \<open>Checkout (lines 79--88)\<close>

subsection \<open>The total\<close>

text \<open>
  \<open>acc + item.price\<close>. When neither operand is a string or an object, \<open>+\<close> converts
  both with \<open>ToNumber\<close> and adds. With a string or an object operand it concatenates
  string forms, which needs the decimal rendering of numbers; that part of the platform
  is not followed here.
\<close>

fun to_number :: "jsval \<Rightarrow> abrupt + jsnum" where
  "to_number JUndefined = Inr NaN"
| "to_number JNull = Inr (Finite 0)"
| "to_number (JBool b) = Inr (Finite (if b then 1 else 0))"
| "to_number (JNum n) = Inr n"
| "to_number _ = Inl NotModelled"

definition js_plus :: "jsval \<Rightarrow> jsval \<Rightarrow> abrupt + jsval" where
  "js_plus a b =
     (case to_number a of
        Inl e \<Rightarrow> Inl e
      | Inr x \<Rightarrow>
          (case to_number b of
             Inl e \<Rightarrow> Inl e
           | Inr y \<Rightarrow> Inr (JNum (num_add x y))))"

text \<open>\<open>Array.prototype.reduce\<close> with an initial value and a callback that may throw.\<close>

fun reduce_arr :: "('b \<Rightarrow> 'a \<Rightarrow> abrupt + 'b) \<Rightarrow> 'b \<Rightarrow> 'a list \<Rightarrow> abrupt + 'b" where
  "reduce_arr f acc [] = Inr acc"
| "reduce_arr f acc (x # xs) =
     (case f acc x of
        Inl e \<Rightarrow> Inl e
      | Inr acc' \<Rightarrow> reduce_arr f acc' xs)"

text \<open>Line 81: \<open>cart.reduce((acc, item) => acc + item.price, 0)\<close>.\<close>

definition checkout_total :: "jsval list \<Rightarrow> abrupt + jsval" where
  "checkout_total c =
     reduce_arr
       (\<lambda>acc item. case get_prop item ''price'' of
                      Inl e \<Rightarrow> Inl e
                    | Inr p \<Rightarrow> js_plus acc p)
       (JNum (Finite 0)) c"

subsection \<open>JSON\<close>

text \<open>
  A request body travels as JSON text; the development keeps the JSON value the text
  denotes. A number on the wire is a finite binary64 value (the sign of a zero is not
  kept: \<open>JSON.stringify\<close> writes both zeros as \<open>0\<close>).
\<close>

datatype json =
    JsonNull
  | JsonBool bool
  | JsonNum rat
  | JsonStr string
  | JsonArr "json list"
  | JsonObj "(string \<times> json) list"

text \<open>
  \<open>JSON.stringify\<close>, as a value: \<open>undefined\<close> has no JSON form (\<open>None\<close>), so a
  property holding it is left out and an array element holding it becomes \<open>null\<close>;
  NaN and the infinities become \<open>null\<close>.
\<close>

fun num_json :: "jsnum \<Rightarrow> json" where
  "num_json (Finite r) = JsonNum r"
| "num_json NegZero = JsonNum 0"
| "num_json _ = JsonNull"

definition elem_json :: "json option \<Rightarrow> json" where
  "elem_json j = (case j of None \<Rightarrow> JsonNull | Some v \<Rightarrow> v)"

definition prop_json :: "string \<times> json option \<Rightarrow> (string \<times> json) list" where
  "prop_json kj = (case snd kj of None \<Rightarrow> [] | Some v \<Rightarrow> [(fst kj, v)])"

fun to_json :: "jsval \<Rightarrow> json option" where
  "to_json JUndefined = None"
| "to_json JNull = Some JsonNull"
| "to_json (JBool b) = Some (JsonBool b)"
| "to_json (JNum n) = Some (num_json n)"
| "to_json (JStr s) = Some (JsonStr s)"
| "to_json (JArr r xs) = Some (JsonArr (map (\<lambda>x. elem_json (to_json x)) xs))"
| "to_json (JObj r kvs) =
     Some (JsonObj (concat (map (\<lambda>kv. prop_json (fst kv, to_json (snd kv))) kvs)))"

subsection \<open>The request and its completion\<close>

record request =
  url :: string
  http_method :: string
  headers :: "(string \<times> string) list"
  body :: json

text \<open>
  The promise that \<open>fetch\<close> returns is settled by the environment: fulfilled with a
  response of some status (an error status included: \<open>fetch\<close> does not reject on
  one), rejected (the request could not be made or was cut), or never settled.
\<close>

datatype 'a promise = Fulfilled 'a | Rejected abrupt | Pending

record response =
  status :: nat

text \<open>Lines 82--86: the argument of \<open>fetch\<close>, with the body
  \<open>JSON.stringify({ products: cart, total })\<close>.\<close>

definition order_request :: "jsval list \<Rightarrow> jsval \<Rightarrow> request" where
  "order_request c t =
     \<lparr>url = ''/orders'',
      http_method = ''POST'',
      headers = [(''Content-Type'', ''application/json'')],
      body = JsonObj ((''products'', JsonArr (map (\<lambda>x. elem_json (to_json x)) c))
                       # prop_json (''total'', to_json t))\<rparr>"

text \<open>
  What a run of \<open>handleCheckout\<close> leaves behind: the requests it issued, the state of
  the store, and how its own promise settled.
\<close>

record 'a checkout =
  issued :: "request list"
  store :: "'a state_scheme"
  settled :: "unit promise"

text \<open>
  \<open>handleCheckout\<close>. \<open>c\<close> is the \<open>cart\<close> prop the component was rendered with,
  \<open>fetch\<close> the environment's answer to a request, and \<open>st\<close> the state of the store
  when the \<open>await\<close> resumes. An exception in line 81 leaves before any request; a
  rejected \<open>fetch\<close> makes the \<open>await\<close> throw, so line 87 is not reached; only a
  fulfilled one continues to \<open>emptyCart()\<close>, which dispatches the action to the store.
\<close>

definition handleCheckout ::
  "(request \<Rightarrow> response promise) \<Rightarrow> jsval list \<Rightarrow> 'a state_scheme \<Rightarrow> 'a checkout" where
  "handleCheckout fetch c st =
     (case checkout_total c of
        Inl e \<Rightarrow> \<lparr>issued = [], store = st, settled = Rejected e\<rparr>
      | Inr t \<Rightarrow>
          (let req = order_request c t in
           case fetch req of
             Pending \<Rightarrow> \<lparr>issued = [req], store = st, settled = Pending\<rparr>
           | Rejected e \<Rightarrow> \<lparr>issued = [req], store = st, settled = Rejected e\<rparr>
           | Fulfilled resp \<Rightarrow>
               (case reducer st emptyCart of
                  Inl e \<Rightarrow> \<lparr>issued = [req], store = st, settled = Rejected e\<rparr>
                | Inr st' \<Rightarrow> \<lparr>issued = [req], store = st', settled = Fulfilled ()\<rparr>)))"

text \<open>Two environments: one whose network is down, so that \<open>fetch\<close> rejects, and
  one whose server answers every request with the status \<open>n\<close>.\<close>

definition fetch_offline :: "request \<Rightarrow> response promise" where
  "fetch_offline req = Rejected NetworkError"

definition fetch_status :: "nat \<Rightarrow> request \<Rightarrow> response promise" where
  "fetch_status n req = Fulfilled \<lparr>status = n\<rparr>"

text \<open>The \<open>price\<close> of an entry when it is a number.\<close>

definition price_of :: "jsval \<Rightarrow> jsnum option" where
  "price_of v = (case get_prop v ''price'' of Inr (JNum p) \<Rightarrow> Some p | _ \<Rightarrow> None)"

section \<open>The HTTP handlers (lines 22--36 and 119--136)\<close>

subsection \<open>Documents\<close>

text \<open>
  The two schemas of the source declare the paths of a document and their types:
  \<open>{ name: String, price: Number }\<close> for a product, and
  \<open>{ products: [{ id: String, quantity: Number }], total: Number }\<close> for an order.
  A path of a document is unset, \<open>null\<close>, or holds a value of its declared type.
  Every document, and every element of a document array, has an \<open>_id\<close> that the
  library generates when the document is constructed; identifiers are taken from a
  counter here. The version key \<open>__v\<close> is left out.
\<close>

datatype 'a path = Absent | Null | Val 'a

record product =
  product_oid :: nat
  name :: "string path"
  price :: "rat path"

record line_item =
  item_oid :: nat
  item_id :: "string path"
  quantity :: "rat path"

record order =
  order_oid :: nat
  products :: "line_item list"
  total :: "rat path"

text \<open>The server: the two collections of the database, and the identifier counter.\<close>

record server =
  product_coll :: "product list"
  order_coll :: "order list"
  next_oid :: nat

text \<open>
  Casting a request value to the type of a path, as the schema library does when a
  document is constructed. A missing property leaves the path unset, \<open>null\<close> is kept,
  and a value of the declared type is kept unchanged. An object (without an \<open>_id\<close> of
  its own) cannot be cast to a number: the document records a cast error, which
  \<open>save()\<close> raises as a validation error. The conversions between scalar types
  (a numeric string to a number, a number to its string, and so on) and the remaining
  combinations follow the library's tables and are not followed here.
\<close>

fun castString :: "json option \<Rightarrow> abrupt + string path" where
  "castString None = Inr Absent"
| "castString (Some JsonNull) = Inr Null"
| "castString (Some (JsonStr s)) = Inr (Val s)"
| "castString (Some _) = Inl NotModelled"

fun castNumber :: "json option \<Rightarrow> abrupt + rat path" where
  "castNumber None = Inr Absent"
| "castNumber (Some JsonNull) = Inr Null"
| "castNumber (Some (JsonNum r)) = Inr (Val r)"
| "castNumber (Some (JsonObj kvs)) =
     (if map_of kvs ''_id'' = None then Inl ValidationError else Inl NotModelled)"
| "castNumber (Some _) = Inl NotModelled"

text \<open>
  \<open>new Product(req.body)\<close> with the identifier \<open>n\<close>. The schema is strict (the
  library's default): a property of the body that is not a path of the schema is
  dropped. A body that sets \<open>_id\<close> or \<open>__v\<close> itself, or that is not an object, is not
  followed. The result \<open>Inl ValidationError\<close> stands for a document holding a cast
  error; the handlers call \<open>save()\<close> on it at once, where the error is raised.
\<close>

definition Product_new :: "nat \<Rightarrow> json \<Rightarrow> abrupt + product" where
  "Product_new n b =
     (case b of
        JsonObj kvs \<Rightarrow>
          (if map_of kvs ''_id'' \<noteq> None \<or> map_of kvs ''__v'' \<noteq> None then Inl NotModelled
           else
             (case castString (map_of kvs ''name'') of
                Inl e \<Rightarrow> Inl e
              | Inr nm \<Rightarrow>
                  (case castNumber (map_of kvs ''price'') of
                     Inl e \<Rightarrow> Inl e
                   | Inr pr \<Rightarrow> Inr \<lparr>product_oid = n, name = nm, price = pr\<rparr>)))
      | _ \<Rightarrow> Inl NotModelled)"

text \<open>One element of the \<open>products\<close> array of an order, with the identifier \<open>n\<close>.\<close>

definition cast_line :: "nat \<Rightarrow> json \<Rightarrow> abrupt + line_item" where
  "cast_line n j =
     (case j of
        JsonObj kvs \<Rightarrow>
          (if map_of kvs ''_id'' \<noteq> None then Inl NotModelled
           else
             (case castString (map_of kvs ''id'') of
                Inl e \<Rightarrow> Inl e
              | Inr i \<Rightarrow>
                  (case castNumber (map_of kvs ''quantity'') of
                     Inl e \<Rightarrow> Inl e
                   | Inr q \<Rightarrow> Inr \<lparr>item_oid = n, item_id = i, quantity = q\<rparr>)))
      | _ \<Rightarrow> Inl NotModelled)"

fun cast_lines :: "nat \<Rightarrow> json list \<Rightarrow> abrupt + line_item list" where
  "cast_lines n [] = Inr []"
| "cast_lines n (j # js) =
     (case cast_line n j of
        Inl e \<Rightarrow> Inl e
      | Inr l \<Rightarrow>
          (case cast_lines (Suc n) js of
             Inl e \<Rightarrow> Inl e
           | Inr ls \<Rightarrow> Inr (l # ls)))"

text \<open>
  \<open>new Order({ products, total })\<close> with the identifier \<open>n\<close> for the order and the
  following ones for its lines. An unset array path defaults to the empty array.
\<close>

definition Order_new :: "nat \<Rightarrow> json option \<Rightarrow> json option \<Rightarrow> abrupt + order" where
  "Order_new n ps t =
     (case (case ps of
              None \<Rightarrow> Inr []
            | Some (JsonArr js) \<Rightarrow> cast_lines (Suc n) js
            | Some _ \<Rightarrow> Inl NotModelled) of
        Inl e \<Rightarrow> Inl e
      | Inr ls \<Rightarrow>
          (case castNumber t of
             Inl e \<Rightarrow> Inl e
           | Inr tt \<Rightarrow> Inr \<lparr>order_oid = n, products = ls, total = tt\<rparr>))"

subsection \<open>Handlers\<close>

text \<open>
  Whether the database answers is the environment's choice. A handler either sends a
  response, a status with the JSON form of one document or of a list of documents, or
  its promise is rejected before \<open>res.status\<close> or \<open>res.json\<close> is reached and the
  handler sends nothing: \<open>NoResponse\<close> with the validation error that \<open>save()\<close>
  raised, or with the failure of the database. No handler catches either.
\<close>

datatype backend = Up | Down

datatype payload_json = ProductJson product | ProductsJson "product list" | OrderJson order

datatype reply = Response nat payload_json | NoResponse abrupt

text \<open>Lines 120--123, \<open>GET /products\<close>: \<open>Product.find()\<close> and \<open>res.json\<close>, whose status
  is 200.\<close>

definition get_products :: "backend \<Rightarrow> server \<Rightarrow> reply" where
  "get_products be srv =
     (case be of
        Down \<Rightarrow> NoResponse BackendError
      | Up \<Rightarrow> Response 200 (ProductsJson (product_coll srv)))"

text \<open>Lines 125--129, \<open>POST /products\<close>.\<close>

definition post_products :: "backend \<Rightarrow> server \<Rightarrow> json \<Rightarrow> server \<times> reply" where
  "post_products be srv b =
     (let srv1 = srv\<lparr>next_oid := Suc (next_oid srv)\<rparr> in
      case Product_new (next_oid srv) b of
        Inl e \<Rightarrow> (srv1, NoResponse e)
      | Inr newProduct \<Rightarrow>
          (case be of
             Down \<Rightarrow> (srv1, NoResponse BackendError)
           | Up \<Rightarrow>
               (srv1\<lparr>product_coll := product_coll srv1 @ [newProduct]\<rparr>,
                Response 201 (ProductJson newProduct))))"

text \<open>
  Lines 131--136, \<open>POST /orders\<close>. The destructuring reads the two properties of the
  parsed body; an array body has neither. The body parser hands the handler objects
  and arrays only.
\<close>

definition post_orders :: "backend \<Rightarrow> server \<Rightarrow> json \<Rightarrow> server \<times> reply" where
  "post_orders be srv b =
     (case (case b of
              JsonObj kvs \<Rightarrow> Inr (map_of kvs ''products'', map_of kvs ''total'')
            | JsonArr js \<Rightarrow> Inr (None, None)
            | _ \<Rightarrow> Inl NotModelled) of
        Inl e \<Rightarrow> (srv, NoResponse e)
      | Inr (ps, t) \<Rightarrow>
          (let k = (case ps of Some (JsonArr js) \<Rightarrow> length js | _ \<Rightarrow> 0);
               srv1 = srv\<lparr>next_oid := Suc (next_oid srv) + k\<rparr> in
           case Order_new (next_oid srv) ps t of
             Inl e \<Rightarrow> (srv1, NoResponse e)
           | Inr newOrder \<Rightarrow>
               (case be of
                  Down \<Rightarrow> (srv1, NoResponse BackendError)
                | Up \<Rightarrow>
                    (srv1\<lparr>order_coll := order_coll srv1 @ [newOrder]\<rparr>,
                     Response 201 (OrderJson newOrder)))))"

text \<open>
  The data properties of a persisted line besides its generated \<open>_id\<close>, as JSON: what
  a reader of the stored order finds in an element of \<open>products\<close>.
\<close>

definition path_json :: "string \<Rightarrow> ('a \<Rightarrow> json) \<Rightarrow> 'a path \<Rightarrow> (string \<times> json) list" where
  "path_json k f p = (case p of Absent \<Rightarrow> [] | Null \<Rightarrow> [(k, JsonNull)] | Val v \<Rightarrow> [(k, f v)])"

definition line_fields :: "line_item \<Rightarrow> (string \<times> json) list" where
  "line_fields l = path_json ''id'' JsonStr (item_id l) @ path_json ''quantity'' JsonNum (quantity l)"

text \<open>A cart entry as the data model describes it: an object with a string \<open>id\<close>, a
  string \<open>name\<close> and a number \<open>price\<close>.\<close>

definition cart_item :: "nat \<Rightarrow> string \<Rightarrow> string \<Rightarrow> jsnum \<Rightarrow> jsval" where
  "cart_item r i n p = JObj r [(''id'', JStr i), (''name'', JStr n), (''price'', JNum p)]"

text \<open>
  Request values that fit a path as they are: a property that is missing, \<open>null\<close>, or
  of the declared type of the path.
\<close>

fun string_or_missing :: "json option \<Rightarrow> bool" where
  "string_or_missing None = True"
| "string_or_missing (Some JsonNull) = True"
| "string_or_missing (Some (JsonStr s)) = True"
| "string_or_missing (Some _) = False"

fun number_or_missing :: "json option \<Rightarrow> bool" where
  "number_or_missing None = True"
| "number_or_missing (Some JsonNull) = True"
| "number_or_missing (Some (JsonNum r)) = True"
| "number_or_missing (Some _) = False"

text \<open>An element of a \<open>products\<close> array that fits the line schema as it is, and the part
  of an element that the schema has paths for.\<close>

fun fits_line :: "json \<Rightarrow> bool" where
  "fits_line (JsonObj kvs) =
     (map_of kvs ''_id'' = None \<and> string_or_missing (map_of kvs ''id'')
      \<and> number_or_missing (map_of kvs ''quantity''))"
| "fits_line _ = False"

fun schema_part :: "json \<Rightarrow> (string \<times> json) list" where
  "schema_part (JsonObj kvs) =
     prop_json (''id'', map_of kvs ''id'') @ prop_json (''quantity'', map_of kvs ''quantity'')"
| "schema_part _ = []"

text \<open>The requests the server answers, and the state after a sequence of them.\<close>

datatype http_request = GetProducts | PostProducts json | PostOrders json

fun serve :: "server \<Rightarrow> backend \<times> http_request \<Rightarrow> server" where
  "serve srv (be, GetProducts) = srv"
| "serve srv (be, PostProducts b) = fst (post_products be srv b)"
| "serve srv (be, PostOrders b) = fst (post_orders be srv b)"

text \<open>The cart of a list of typed entries (reference, id, name, price).\<close>

definition item_of :: "nat \<times> string \<times> string \<times> jsnum \<Rightarrow> jsval" where
  "item_of x = (case x of (r, i, n, p) \<Rightarrow> cart_item r i n p)"

section \<open>Properties\<close>

subsection \<open>Integer arithmetic in binary64\<close>

text \<open>An integer of magnitude up to \<open>2 ^ 53\<close> is a binary64 value, so rounding
  leaves it alone and additions that stay in that range are exact.\<close>

lemma floor_log2_le:
  assumes "0 < x"
  shows "2 powi (floor_log2 x) \<le> x"
proof -
  obtain p q where pq: "quotient_of x = (p, q)" by (cases "quotient_of x")
  have q: "0 < q" using pq quotient_of_denom_pos by blast
  have x: "x = of_int p / of_int q" using pq quotient_of_div by blast
  have p: "0 < p" using assms q x by (simp add: zero_less_divide_iff)
  define k where "k = bitlen p - bitlen q"
  have fl: "floor_log2 x = (if 2 powi k \<le> x then k else k - 1)"
    by (simp add: floor_log2_def pq k_def Let_def)
  show ?thesis
  proof (cases "2 powi k \<le> x")
    case True
    then show ?thesis by (simp add: fl)
  next
    case False
    have bp: "2 ^ nat (bitlen p - 1) \<le> p" using bitlen_bounds[OF p] by simp
    have bq: "q < 2 ^ nat (bitlen q)" using bitlen_bounds[OF q] by simp
    have bp1: "1 \<le> bitlen p" using p bitlen_eq_zero_iff[of p] bitlen_nonneg[of p] by linarith
    have bq0: "0 \<le> bitlen q" by (rule bitlen_nonneg)
    have P: "(2::rat) powi (bitlen p - 1) \<le> of_int p"
    proof -
      have "(of_int (2 ^ nat (bitlen p - 1)) :: rat) \<le> of_int p" using bp by (simp only: of_int_le_iff)
      moreover have "(2::rat) powi (bitlen p - 1) = 2 ^ nat (bitlen p - 1)"
        using bp1 by (simp add: power_int_def)
      ultimately show ?thesis by simp
    qed
    have Q: "of_int q \<le> (2::rat) powi (bitlen q)"
    proof -
      have "(of_int q :: rat) \<le> of_int (2 ^ nat (bitlen q))" using bq by (simp only: of_int_le_iff)
      moreover have "(2::rat) powi (bitlen q) = 2 ^ nat (bitlen q)"
        using bq0 by (simp add: power_int_def)
      ultimately show ?thesis by simp
    qed
    have "(2::rat) powi (k - 1) = 2 powi (bitlen p - 1) / 2 powi (bitlen q)"
      by (simp add: k_def power_int_diff)
    also have "\<dots> \<le> of_int p / 2 powi (bitlen q)"
      using P by (simp add: divide_right_mono)
    also have "\<dots> \<le> of_int p / of_int q"
      using Q p q by (simp add: frac_le)
    finally have "2 powi (k - 1) \<le> x" by (simp only: x)
    then show ?thesis using False by (simp only: fl if_False)
  qed
qed

lemma round_half_even_of_int: "round_half_even (of_int n) = n"
  by (simp add: round_half_even_def)

lemma round64_of_int:
  assumes "\<bar>n\<bar> \<le> 2 ^ 53"
  shows "round64 (of_int n) = Finite (of_int n)"
proof (cases "n = 0")
  case True
  then show ?thesis by (simp add: round64_def)
next
  case False
  define x :: rat where "x = of_int n"
  define e where "e = max (floor_log2 \<bar>x\<bar>) (- 1022)"
  have xpos: "0 < \<bar>x\<bar>" using False by (simp add: x_def)
  have xle: "\<bar>x\<bar> \<le> 2 ^ 53"
  proof -
    have "(of_int \<bar>n\<bar> :: rat) \<le> of_int (2 ^ 53)" using assms by (simp only: of_int_le_iff)
    then show ?thesis by (simp add: x_def)
  qed
  have "2 powi (floor_log2 \<bar>x\<bar>) \<le> \<bar>x\<bar>" by (rule floor_log2_le[OF xpos])
  then have "(2::rat) powi (floor_log2 \<bar>x\<bar>) \<le> 2 powi 53" using xle by simp
  then have "floor_log2 \<bar>x\<bar> \<le> 53"
    using power_int_le_imp_le_exp[of "2::rat" "floor_log2 \<bar>x\<bar>" 53] by simp
  then have e53: "e \<le> 53" by (simp add: e_def)
  have integral: "\<exists>m. x / 2 powi (e - 52) = of_int m"
  proof (cases "e \<le> 52")
    case True
    then have "(2::rat) powi (e - 52) = 1 / 2 ^ nat (52 - e)"
      by (simp add: power_int_def field_simps)
    then have "x / 2 powi (e - 52) = of_int (n * 2 ^ nat (52 - e))"
      by (simp add: x_def)
    then show ?thesis by blast
  next
    case False
    then have e: "e = 53" using e53 by simp
    then have "53 = floor_log2 \<bar>x\<bar>" by (simp add: e_def max_def split: if_splits)
    then have "(2::rat) powi 53 \<le> \<bar>x\<bar>" using floor_log2_le[OF xpos] by simp
    then have "\<bar>x\<bar> = 2 ^ 53" using xle by simp
    then have "(of_int \<bar>n\<bar> :: rat) = of_int (2 ^ 53)" by (simp add: x_def)
    then have "\<bar>n\<bar> = 2 ^ 53" by (simp only: of_int_eq_iff)
    then have "n = 2 * (if 0 < n then 2 ^ 52 else - (2 ^ 52))" by (auto simp: abs_if split: if_splits)
    then obtain m where "n = 2 * m" by blast
    then have "x / 2 powi (e - 52) = of_int m" by (simp add: e x_def)
    then show ?thesis by blast
  qed
  then obtain m where m: "x / 2 powi (e - 52) = of_int m" by blast
  have qpos: "(2::rat) powi (e - 52) \<noteq> 0" by simp
  have y: "of_int (round_half_even (x / 2 powi (e - 52))) * 2 powi (e - 52) = x"
    using m qpos by (simp add: round_half_even_of_int field_simps)
  have small: "\<not> (2 powi 1024 \<le> \<bar>x\<bar>)"
    using xle by simp
  show ?thesis
    using False y small
    unfolding round64_def Let_def e_def[symmetric] x_def[symmetric]
    by (simp add: x_def)
qed

lemma num_add_of_int:
  assumes "\<bar>a + b\<bar> \<le> 2 ^ 53"
  shows "num_add (Finite (of_int a)) (Finite (of_int b)) = Finite (of_int (a + b))"
  using round64_of_int[OF assms] by simp

subsection \<open>The reducer\<close>

lemma strict_eq_JStr: "strict_eq v (JStr s) = (v = JStr s)"
  by (cases v) auto

lemma reducer_addToCart: "reducer st (addToCart p) = Inr (st\<lparr>cart := cart st @ [p]\<rparr>)"
  by (simp add: reducer_def addToCart_def)

lemma reducer_emptyCart: "reducer st emptyCart = Inr (st\<lparr>cart := []\<rparr>)"
  by (simp add: reducer_def emptyCart_def ADD_TO_CART_def REMOVE_FROM_CART_def EMPTY_CART_def)

lemma get_prop_id_readable: "readable v \<Longrightarrow> get_prop v ''id'' = Inr (entry_id v)"
  by (cases v) simp_all

lemma filter_arr_readable:
  "\<forall>v\<in>set xs. readable v \<Longrightarrow>
   filter_arr (\<lambda>item. case get_prop item ''id'' of Inl e \<Rightarrow> Inl e
                       | Inr v \<Rightarrow> Inr (\<not> strict_eq v pid)) xs
   = Inr (filter (\<lambda>item. \<not> strict_eq (entry_id item) pid) xs)"
  by (induction xs) (simp_all add: get_prop_id_readable)

lemma reducer_removeFromCart:
  "\<forall>v\<in>set (cart st). readable v \<Longrightarrow>
   reducer st (removeFromCart pid)
   = Inr (st\<lparr>cart := filter (\<lambda>item. \<not> strict_eq (entry_id item) pid) (cart st)\<rparr>)"
  by (simp add: reducer_def removeFromCart_def filter_arr_readable
      ADD_TO_CART_def REMOVE_FROM_CART_def)

lemma reducer_action_of:
  "\<forall>v\<in>set (cart st). readable v \<Longrightarrow>
   reducer st (action_of op) = Inr (st\<lparr>cart := spec_step (cart st) op\<rparr>)"
  by (cases op) (simp_all add: reducer_addToCart reducer_removeFromCart reducer_emptyCart)

lemma spec_step_readable:
  "\<forall>v\<in>set c. readable v \<Longrightarrow> adds_readable op \<Longrightarrow> \<forall>v\<in>set (spec_step c op). readable v"
  by (cases op) auto

lemma filter_none_matching:
  "\<forall>v\<in>set xs. \<not> strict_eq (entry_id v) pid \<Longrightarrow>
   filter (\<lambda>item. \<not> strict_eq (entry_id item) pid) xs = xs"
  by (induction xs) simp_all

text \<open>
  Claim C2. Starting from any cart and for any finite sequence of \<open>addToCart\<close>,
  \<open>removeFromCart\<close> and \<open>emptyCart\<close> actions, dispatching the actions to the reducer
  one after the other gives the cart that the three rules of the specification
  (\<open>spec_step\<close>) compute: adding appends the product at the end, removing keeps exactly
  the entries whose id differs (\<open>!==\<close>) from the given one, in their order, and emptying
  gives the empty sequence. The other properties of the state are untouched. A cart is a
  sequence of entries with properties to read: the entries, initial or added, are not
  \<open>undefined\<close> or \<open>null\<close>.
\<close>

theorem reducer_follows_spec:
  assumes "\<forall>v\<in>set (cart st). readable v" and "\<forall>op\<in>set ops. adds_readable op"
  shows "dispatch_all st (map action_of ops) = Inr (st\<lparr>cart := foldl spec_step (cart st) ops\<rparr>)"
  using assms
proof (induction ops arbitrary: st)
  case Nil
  then show ?case by simp
next
  case (Cons op ops)
  let ?st' = "st\<lparr>cart := spec_step (cart st) op\<rparr>"
  have step: "reducer st (action_of op) = Inr ?st'"
    using Cons.prems(1) by (rule reducer_action_of)
  have "\<forall>v\<in>set (cart ?st'). readable v"
    using spec_step_readable[of "cart st" op] Cons.prems by simp
  moreover have "\<forall>op\<in>set ops. adds_readable op" using Cons.prems(2) by simp
  ultimately have "dispatch_all ?st' (map action_of ops)
      = Inr (?st'\<lparr>cart := foldl spec_step (cart ?st') ops\<rparr>)"
    by (rule Cons.IH)
  then show ?case by (simp add: step)
qed

theorem reducer_follows_spec_witness:
  "dispatch_all \<lparr>cart = [JStr ''x'']\<rparr>
     (map action_of
        [Add (cart_item 1 ''p1'' ''Widget'' (Finite 10)),
         Add (cart_item 2 ''p2'' ''Gadget'' (Finite 5)),
         Add (cart_item 3 ''p1'' ''Widget'' (Finite 10)),
         Remove (JStr ''p1''),
         Add (JNum NaN),
         Empty,
         Add (cart_item 4 ''p2'' ''Gadget'' (Finite 5))])
   = Inr \<lparr>cart = [cart_item 4 ''p2'' ''Gadget'' (Finite 5)]\<rparr>"
  using reducer_follows_spec [of "\<lparr>cart = [JStr ''x'']\<rparr>"
        "[Add (cart_item 1 ''p1'' ''Widget'' (Finite 10)),
         Add (cart_item 2 ''p2'' ''Gadget'' (Finite 5)),
         Add (cart_item 3 ''p1'' ''Widget'' (Finite 10)),
         Remove (JStr ''p1''),
         Add (JNum NaN),
         Empty,
         Add (cart_item 4 ''p2'' ''Gadget'' (Finite 5))]"]
  by (simp add: cart_item_def)

text \<open>
  Claim C3. \<open>removeFromCart(productId)\<close> keeps the entries whose id differs from
  \<open>productId\<close> and so removes every entry whose id equals it, not only the first; when
  no entry matches, the reducer succeeds and returns the state as it was. In particular,
  adding the same product twice to an empty cart and removing its id once gives the
  empty cart. Equality is \<open>===\<close>, so the id of that product must equal itself, which
  every value but NaN does.
\<close>

theorem removeFromCart_removes_every_match:
  assumes "\<forall>v\<in>set (cart st). readable v"
    and "readable p"
    and "strict_eq (entry_id p) (entry_id p)"
  shows "reducer st (removeFromCart pid)
           = Inr (st\<lparr>cart := filter (\<lambda>item. \<not> strict_eq (entry_id item) pid) (cart st)\<rparr>)
       \<and> ((\<forall>v\<in>set (cart st). \<not> strict_eq (entry_id v) pid) \<longrightarrow>
            reducer st (removeFromCart pid) = Inr st)
       \<and> dispatch_all (st\<lparr>cart := []\<rparr>) [addToCart p, addToCart p, removeFromCart (entry_id p)]
           = Inr (st\<lparr>cart := []\<rparr>)"
proof (intro conjI impI)
  show rm: "reducer st (removeFromCart pid)
      = Inr (st\<lparr>cart := filter (\<lambda>item. \<not> strict_eq (entry_id item) pid) (cart st)\<rparr>)"
    using assms(1) by (rule reducer_removeFromCart)
  show "reducer st (removeFromCart pid) = Inr st"
    if "\<forall>v\<in>set (cart st). \<not> strict_eq (entry_id v) pid"
    using that by (simp add: rm filter_none_matching)
  have "reducer (st\<lparr>cart := [p, p]\<rparr>) (removeFromCart (entry_id p)) = Inr (st\<lparr>cart := []\<rparr>)"
    using assms(2,3) by (simp add: reducer_removeFromCart)
  then show "dispatch_all (st\<lparr>cart := []\<rparr>) [addToCart p, addToCart p, removeFromCart (entry_id p)]
      = Inr (st\<lparr>cart := []\<rparr>)"
    by (simp add: reducer_addToCart)
qed

theorem removeFromCart_removes_every_match_witness:
  "reducer \<lparr>cart = [cart_item 1 ''p1'' ''Widget'' (Finite 10),
                      cart_item 2 ''p2'' ''Gadget'' (Finite 5),
                      cart_item 3 ''p1'' ''Widget'' (Finite 10)]\<rparr>
      (removeFromCart (JStr ''p1''))
     = Inr \<lparr>cart = [cart_item 2 ''p2'' ''Gadget'' (Finite 5)]\<rparr>
   \<and> reducer \<lparr>cart = [cart_item 2 ''p2'' ''Gadget'' (Finite 5)]\<rparr> (removeFromCart (JStr ''p1''))
     = Inr \<lparr>cart = [cart_item 2 ''p2'' ''Gadget'' (Finite 5)]\<rparr>
   \<and> dispatch_all \<lparr>cart = []\<rparr>
        [addToCart (cart_item 1 ''p1'' ''Widget'' (Finite 10)),
         addToCart (cart_item 1 ''p1'' ''Widget'' (Finite 10)),
         removeFromCart (JStr ''p1'')]
     = Inr \<lparr>cart = []\<rparr>"
  using removeFromCart_removes_every_match
          [of "\<lparr>cart = [cart_item 1 ''p1'' ''Widget'' (Finite 10),
                          cart_item 2 ''p2'' ''Gadget'' (Finite 5),
                          cart_item 3 ''p1'' ''Widget'' (Finite 10)]\<rparr>"
              "cart_item 1 ''p1'' ''Widget'' (Finite 10)" "JStr ''p1''"]
        removeFromCart_removes_every_match
          [of "\<lparr>cart = [cart_item 2 ''p2'' ''Gadget'' (Finite 5)]\<rparr>"
              "cart_item 1 ''p1'' ''Widget'' (Finite 10)" "JStr ''p1''"]
  by (simp add: cart_item_def)

text \<open>
  Claim C8. \<open>emptyCart\<close> is idempotent: dispatching it twice in a row leaves the store
  in the state that dispatching it once does, the state with the empty cart.
\<close>

theorem emptyCart_idempotent:
  "dispatch_all st [emptyCart, emptyCart] = dispatch_all st [emptyCart]
   \<and> dispatch_all st [emptyCart] = Inr (st\<lparr>cart := []\<rparr>)"
  by (simp add: reducer_emptyCart)

theorem emptyCart_idempotent_witness:
  "dispatch_all \<lparr>cart = [cart_item 1 ''p1'' ''Widget'' (Finite 10)]\<rparr> [emptyCart, emptyCart]
     = Inr \<lparr>cart = []\<rparr>
   \<and> dispatch_all \<lparr>cart = [cart_item 1 ''p1'' ''Widget'' (Finite 10)]\<rparr> [emptyCart]
     = Inr \<lparr>cart = []\<rparr>"
  using emptyCart_idempotent [of "\<lparr>cart = [cart_item 1 ''p1'' ''Widget'' (Finite 10)]\<rparr>"]
  by simp

text \<open>
  Claim C10. For every state and every action whose type is none of \<open>ADD_TO_CART\<close>,
  \<open>REMOVE_FROM_CART\<close> and \<open>EMPTY_CART\<close>, the reducer returns the state unchanged.
\<close>

theorem reducer_default_case:
  assumes "atype a \<noteq> JStr ADD_TO_CART"
    and "atype a \<noteq> JStr REMOVE_FROM_CART"
    and "atype a \<noteq> JStr EMPTY_CART"
  shows "reducer st a = Inr st"
  using assms by (simp add: reducer_def strict_eq_JStr)

theorem reducer_default_case_witness:
  "reducer \<lparr>cart = [cart_item 1 ''p1'' ''Widget'' (Finite 10)]\<rparr>
     \<lparr>atype = JStr ''@@redux/INIT'', payload = JUndefined\<rparr>
   = Inr \<lparr>cart = [cart_item 1 ''p1'' ''Widget'' (Finite 10)]\<rparr>"
  using reducer_default_case [of "\<lparr>atype = JStr ''@@redux/INIT'', payload = JUndefined\<rparr>"
      "\<lparr>cart = [cart_item 1 ''p1'' ''Widget'' (Finite 10)]\<rparr>"]
  by (simp add: ADD_TO_CART_def REMOVE_FROM_CART_def EMPTY_CART_def)

subsection \<open>Checkout\<close>

lemma total_one: "checkout_total [cart_item 1 ''p1'' ''Widget'' (Finite 10)] = Inr (JNum (Finite 10))"
  using num_add_of_int[of 0 10]
  by (simp add: checkout_total_def cart_item_def js_plus_def)

lemma reduce_total_numbers:
  "map price_of c = map Some ps \<Longrightarrow>
   reduce_arr (\<lambda>acc item. case get_prop item ''price'' of Inl e \<Rightarrow> Inl e | Inr p \<Rightarrow> js_plus acc p)
     (JNum a) c
   = Inr (JNum (foldl num_add a ps))"
proof (induction c arbitrary: a ps)
  case Nil
  then show ?case by simp
next
  case (Cons v c)
  then obtain p ps' where ps: "ps = p # ps'" and p: "price_of v = Some p"
    and rest: "map price_of c = map Some ps'"
    by (cases ps) auto
  have "get_prop v ''price'' = Inr (JNum p)"
    using p by (auto simp: price_of_def split: sum.splits jsval.splits)
  then show ?case
    using Cons.IH[OF rest, of "num_add a p"] by (simp add: ps js_plus_def)
qed

lemma foldl_num_add_ints:
  "\<bar>a\<bar> + sum_list (map abs ns) \<le> 2 ^ 53 \<Longrightarrow>
   foldl num_add (Finite (of_int a)) (map (\<lambda>n. Finite (of_int n)) ns)
   = Finite (of_int (a + sum_list ns))"
proof (induction ns arbitrary: a)
  case Nil
  then show ?case by simp
next
  case (Cons n ns)
  have "\<bar>a + n\<bar> \<le> \<bar>a\<bar> + \<bar>n\<bar>" by simp
  moreover have "0 \<le> sum_list (map abs ns)" by (rule sum_list_nonneg) auto
  ultimately have b: "\<bar>a + n\<bar> \<le> 2 ^ 53" and r: "\<bar>a + n\<bar> + sum_list (map abs ns) \<le> 2 ^ 53"
    using Cons.prems by simp_all
  have step: "num_add (Finite (of_int a)) (Finite (of_int n)) = Finite (of_int (a + n))"
    by (rule num_add_of_int[OF b])
  have "foldl num_add (Finite (of_int a)) (map (\<lambda>n. Finite (of_int n)) (n # ns))
      = foldl num_add (Finite (of_int (a + n))) (map (\<lambda>n. Finite (of_int n)) ns)"
    by (simp only: list.map foldl_Cons step)
  also have "\<dots> = Finite (of_int (a + n + sum_list ns))"
    by (rule Cons.IH[OF r])
  finally show ?case by (simp add: add.assoc)
qed

text \<open>
  Claim C1, as amended. Once \<open>handleCheckout\<close> has issued its request: when the promise
  of \<open>fetch\<close> is fulfilled, whatever the status of the response, success or error,
  \<open>emptyCart()\<close> is dispatched and the cart is reset to the empty sequence; when the
  promise is rejected, \<open>handleCheckout\<close> is rejected with the same reason, and the
  store is left as it was.
\<close>

theorem handleCheckout_empties_when_fetch_fulfils:
  assumes "checkout_total c = Inr t"
  shows "(fetch (order_request c t) = Fulfilled resp \<longrightarrow>
            handleCheckout fetch c st
              = \<lparr>issued = [order_request c t], store = st\<lparr>cart := []\<rparr>, settled = Fulfilled ()\<rparr>)
       \<and> (fetch (order_request c t) = Rejected e \<longrightarrow>
            handleCheckout fetch c st
              = \<lparr>issued = [order_request c t], store = st, settled = Rejected e\<rparr>)"
  using assms by (simp add: handleCheckout_def reducer_emptyCart Let_def)

theorem handleCheckout_empties_when_fetch_fulfils_witness:
  "handleCheckout (fetch_status 500) [cart_item 1 ''p1'' ''Widget'' (Finite 10)]
       \<lparr>cart = [cart_item 1 ''p1'' ''Widget'' (Finite 10)]\<rparr>
     = \<lparr>issued = [order_request [cart_item 1 ''p1'' ''Widget'' (Finite 10)] (JNum (Finite 10))],
        store = \<lparr>cart = []\<rparr>, settled = Fulfilled ()\<rparr>
   \<and> handleCheckout fetch_offline [cart_item 1 ''p1'' ''Widget'' (Finite 10)]
       \<lparr>cart = [cart_item 1 ''p1'' ''Widget'' (Finite 10)]\<rparr>
     = \<lparr>issued = [order_request [cart_item 1 ''p1'' ''Widget'' (Finite 10)] (JNum (Finite 10))],
        store = \<lparr>cart = [cart_item 1 ''p1'' ''Widget'' (Finite 10)]\<rparr>,
        settled = Rejected NetworkError\<rparr>"
  using handleCheckout_empties_when_fetch_fulfils [OF total_one, of "fetch_status 500" "\<lparr>status = 500\<rparr>"
          "\<lparr>cart = [cart_item 1 ''p1'' ''Widget'' (Finite 10)]\<rparr>" NetworkError]
        handleCheckout_empties_when_fetch_fulfils [OF total_one, of fetch_offline "\<lparr>status = 500\<rparr>"
          "\<lparr>cart = [cart_item 1 ''p1'' ''Widget'' (Finite 10)]\<rparr>" NetworkError]
  by (simp add: fetch_status_def fetch_offline_def)

text \<open>
  The claim as stated fails: with the network down the request is issued and fails, the
  promise of \<open>fetch\<close> is rejected, and the cart still holds its entry.
\<close>

theorem handleCheckout_rejected_fetch_keeps_cart:
  "issued (handleCheckout fetch_offline [cart_item 1 ''p1'' ''Widget'' (Finite 10)]
             \<lparr>cart = [cart_item 1 ''p1'' ''Widget'' (Finite 10)]\<rparr>)
     = [order_request [cart_item 1 ''p1'' ''Widget'' (Finite 10)] (JNum (Finite 10))]
   \<and> settled (handleCheckout fetch_offline [cart_item 1 ''p1'' ''Widget'' (Finite 10)]
             \<lparr>cart = [cart_item 1 ''p1'' ''Widget'' (Finite 10)]\<rparr>)
     = Rejected NetworkError
   \<and> cart (store (handleCheckout fetch_offline [cart_item 1 ''p1'' ''Widget'' (Finite 10)]
             \<lparr>cart = [cart_item 1 ''p1'' ''Widget'' (Finite 10)]\<rparr>))
     \<noteq> []"
  using total_one by (simp add: handleCheckout_def fetch_offline_def)

text \<open>
  Claim C4. When the prices of the cart's entries are the numbers \<open>ps\<close>, in order, the
  total computed at checkout is their sum as JavaScript adds numbers, from 0 and from
  left to right, one summand per entry: no quantity is read and equal entries are
  counted each. When the prices are integers whose magnitudes add up to at most
  \<open>2 ^ 53\<close>, that is their exact sum. For the cart of the prices 10, 5 and 5 the total
  is 20 (the witness).
\<close>

theorem checkout_total_is_sum_of_prices:
  assumes "map price_of c = map Some ps"
  shows "checkout_total c = Inr (JNum (foldl num_add (Finite 0) ps))
       \<and> (\<forall>ns. ps = map (\<lambda>n. Finite (of_int n)) ns \<and> sum_list (map abs ns) \<le> 2 ^ 53 \<longrightarrow>
            checkout_total c = Inr (JNum (Finite (of_int (sum_list ns)))))"
proof (intro conjI allI impI)
  show t: "checkout_total c = Inr (JNum (foldl num_add (Finite 0) ps))"
    using reduce_total_numbers[OF assms] by (simp add: checkout_total_def)
  fix ns :: "int list"
  assume "ps = map (\<lambda>n. Finite (of_int n)) ns \<and> sum_list (map abs ns) \<le> 2 ^ 53"
  then show "checkout_total c = Inr (JNum (Finite (of_int (sum_list ns))))"
    using foldl_num_add_ints[of 0 ns] by (simp add: t)
qed

theorem checkout_total_is_sum_of_prices_witness:
  "checkout_total [JObj 1 [(''price'', JNum (Finite 10))],
                   JObj 2 [(''price'', JNum (Finite 5))],
                   JObj 3 [(''price'', JNum (Finite 5))]]
   = Inr (JNum (Finite 20))"
  using checkout_total_is_sum_of_prices
          [of "[JObj 1 [(''price'', JNum (Finite 10))],
                JObj 2 [(''price'', JNum (Finite 5))],
                JObj 3 [(''price'', JNum (Finite 5))]]"
              "[Finite 10, Finite 5, Finite 5]", THEN conjunct2, THEN spec, of "[10, 5, 5]"]
  by (simp add: price_of_def)

subsection \<open>The handlers\<close>

lemma castString_fits:
  "string_or_missing j \<Longrightarrow> \<exists>p. castString j = Inr p \<and> path_json k JsonStr p = prop_json (k, j)"
  by (cases j rule: string_or_missing.cases) (simp_all add: path_json_def prop_json_def)

lemma castNumber_fits:
  "number_or_missing j \<Longrightarrow> \<exists>p. castNumber j = Inr p \<and> path_json k JsonNum p = prop_json (k, j)"
  by (cases j rule: number_or_missing.cases) (simp_all add: path_json_def prop_json_def)

lemma post_products_keeps: "set (product_coll srv) \<subseteq> set (product_coll (fst (post_products be srv b)))"
  by (auto simp: post_products_def Let_def split: sum.splits backend.splits)

lemma post_orders_keeps: "product_coll (fst (post_orders be srv b)) = product_coll srv"
  by (auto simp: post_orders_def Let_def split: sum.splits backend.splits json.splits prod.splits)

lemma serve_keeps: "set (product_coll srv) \<subseteq> set (product_coll (serve srv r))"
proof (cases r)
  case (Pair be q)
  then show ?thesis
    using post_products_keeps[of srv be] post_orders_keeps[of be srv]
    by (cases q) auto
qed

lemma foldl_serve_keeps: "set (product_coll srv) \<subseteq> set (product_coll (foldl serve srv rs))"
proof (induction rs arbitrary: srv)
  case Nil
  then show ?case by simp
next
  case (Cons r rs)
  have "set (product_coll srv) \<subseteq> set (product_coll (serve srv r))" by (rule serve_keeps)
  also have "\<dots> \<subseteq> set (product_coll (foldl serve (serve srv r) rs))" by (rule Cons.IH)
  finally show ?case by simp
qed

lemma cast_line_fits:
  "fits_line j \<Longrightarrow> \<exists>l. cast_line n j = Inr l \<and> item_oid l = n \<and> line_fields l = schema_part j"
proof (cases j)
  case (JsonObj kvs)
  assume "fits_line j"
  then have f: "map_of kvs ''_id'' = None" "string_or_missing (map_of kvs ''id'')"
      "number_or_missing (map_of kvs ''quantity'')"
    using JsonObj by simp_all
  obtain i where i: "castString (map_of kvs ''id'') = Inr i"
      "path_json ''id'' JsonStr i = prop_json (''id'', map_of kvs ''id'')"
    using castString_fits[OF f(2)] by blast
  obtain q where q: "castNumber (map_of kvs ''quantity'') = Inr q"
      "path_json ''quantity'' JsonNum q = prop_json (''quantity'', map_of kvs ''quantity'')"
    using castNumber_fits[OF f(3)] by blast
  show ?thesis
    using f(1) i q by (simp add: JsonObj cast_line_def line_fields_def)
qed simp_all

lemma cast_lines_fit:
  "\<forall>j\<in>set js. fits_line j \<Longrightarrow>
   \<exists>ls. cast_lines n js = Inr ls \<and> length ls = length js \<and> map line_fields ls = map schema_part js"
proof (induction js arbitrary: n)
  case Nil
  then show ?case by simp
next
  case (Cons j js)
  obtain l where l: "cast_line n j = Inr l" "line_fields l = schema_part j"
    using cast_line_fits[of j n] Cons.prems by auto
  obtain ls where ls: "cast_lines (Suc n) js = Inr ls" "length ls = length js"
      "map line_fields ls = map schema_part js"
    using Cons.IH[of "Suc n"] Cons.prems by auto
  show ?case using l ls by simp
qed

lemma price_of_items: "map price_of (map item_of items) = map Some (map (\<lambda>x. snd (snd (snd x))) items)"
  by (induction items) (auto simp: item_of_def cart_item_def price_of_def)

lemma fits_line_item: "fits_line (elem_json (to_json (item_of x)))"
  by (cases x) (simp add: item_of_def cart_item_def elem_json_def prop_json_def)

lemma schema_part_item:
  "schema_part (elem_json (to_json (item_of x))) = [(''id'', JsonStr (fst (snd x)))]"
  by (cases x) (simp add: item_of_def cart_item_def elem_json_def prop_json_def)

lemma number_or_missing_num_json: "number_or_missing (Some (num_json t))"
  by (cases t) simp_all

text \<open>
  Claim C5. For every cart of entries \<open>{id, name, price}\<close>, checkout issues exactly one
  request, a \<open>POST\<close> to \<open>/orders\<close> whose body is
  \<open>{products: the cart's entries, total: the computed total}\<close>, however the request
  ends. The order that the server persists for that body has as \<open>products\<close> a sequence
  of records of the line schema \<open>{id, quantity}\<close>, one per entry and in the cart's
  order: each holds the id of its entry, and its quantity is unset, since an entry
  carries none.
\<close>

theorem checkout_issues_one_order_request:
  "\<exists>t. checkout_total (map item_of items) = Inr (JNum t)
       \<and> issued (handleCheckout fetch (map item_of items) st)
           = [\<lparr>url = ''/orders'', http_method = ''POST'',
               headers = [(''Content-Type'', ''application/json'')],
               body = JsonObj [(''products'', JsonArr (map (\<lambda>x. elem_json (to_json (item_of x))) items)),
                               (''total'', num_json t)]\<rparr>]
       \<and> (\<exists>ord. post_orders Up srv
                   (JsonObj [(''products'', JsonArr (map (\<lambda>x. elem_json (to_json (item_of x))) items)),
                             (''total'', num_json t)])
                 = (srv\<lparr>next_oid := Suc (next_oid srv) + length items,
                        order_coll := order_coll srv @ [ord]\<rparr>,
                    Response 201 (OrderJson ord))
               \<and> map line_fields (products ord) = map (\<lambda>x. [(''id'', JsonStr (fst (snd x)))]) items)"
proof -
  let ?c = "map item_of items"
  let ?t = "foldl num_add (Finite 0) (map (\<lambda>x. snd (snd (snd x))) items)"
  let ?js = "map (\<lambda>x. elem_json (to_json (item_of x))) items"
  let ?kvs = "[(''products'', JsonArr ?js), (''total'', num_json ?t)]"
  have tot: "checkout_total ?c = Inr (JNum ?t)"
    using reduce_total_numbers[OF price_of_items, where a = "Finite 0"]
    by (simp add: checkout_total_def)
  have req: "order_request ?c (JNum ?t)
      = \<lparr>url = ''/orders'', http_method = ''POST'',
         headers = [(''Content-Type'', ''application/json'')],
         body = JsonObj ?kvs\<rparr>"
    by (simp add: order_request_def prop_json_def comp_def)
  have iss: "issued (handleCheckout fetch ?c st) = [order_request ?c (JNum ?t)]"
    by (simp add: handleCheckout_def tot Let_def reducer_emptyCart split: promise.splits)
  have "\<forall>j\<in>set ?js. fits_line j" by (simp add: fits_line_item)
  then obtain ls where ls: "cast_lines (Suc (next_oid srv)) ?js = Inr ls"
      "map line_fields ls = map schema_part ?js"
    using cast_lines_fit by blast
  obtain tt where tt: "castNumber (Some (num_json ?t)) = Inr tt"
    using castNumber_fits[OF number_or_missing_num_json] by blast
  have post: "post_orders Up srv (JsonObj ?kvs)
      = (srv\<lparr>next_oid := Suc (next_oid srv) + length items,
             order_coll := order_coll srv @ [\<lparr>order_oid = next_oid srv, products = ls, total = tt\<rparr>]\<rparr>,
         Response 201 (OrderJson \<lparr>order_oid = next_oid srv, products = ls, total = tt\<rparr>))"
    using ls(1) tt by (simp add: post_orders_def Order_new_def Let_def)
  have "map line_fields ls = map (\<lambda>x. [(''id'', JsonStr (fst (snd x)))]) items"
    using ls(2) by (simp add: schema_part_item comp_def)
  then show ?thesis
    using tot iss req post by auto
qed

theorem checkout_issues_one_order_request_witness:
  "checkout_total (map item_of [(1, ''p1'', ''Widget'', Finite 10), (2, ''p2'', ''Gadget'', Finite 5)])
     = Inr (JNum (Finite 15))
   \<and> issued (handleCheckout fetch_offline
         (map item_of [(1, ''p1'', ''Widget'', Finite 10), (2, ''p2'', ''Gadget'', Finite 5)])
         \<lparr>cart = map item_of [(1, ''p1'', ''Widget'', Finite 10), (2, ''p2'', ''Gadget'', Finite 5)]\<rparr>)
     = [\<lparr>url = ''/orders'', http_method = ''POST'',
         headers = [(''Content-Type'', ''application/json'')],
         body = JsonObj
           [(''products'',
             JsonArr [JsonObj [(''id'', JsonStr ''p1''), (''name'', JsonStr ''Widget''),
                               (''price'', JsonNum 10)],
                      JsonObj [(''id'', JsonStr ''p2''), (''name'', JsonStr ''Gadget''),
                               (''price'', JsonNum 5)]]),
            (''total'', JsonNum 15)]\<rparr>]
   \<and> post_orders Up \<lparr>product_coll = [], order_coll = [], next_oid = 7\<rparr>
       (JsonObj
           [(''products'',
             JsonArr [JsonObj [(''id'', JsonStr ''p1''), (''name'', JsonStr ''Widget''),
                               (''price'', JsonNum 10)],
                      JsonObj [(''id'', JsonStr ''p2''), (''name'', JsonStr ''Gadget''),
                               (''price'', JsonNum 5)]]),
            (''total'', JsonNum 15)])
     = (\<lparr>product_coll = [],
         order_coll = [\<lparr>order_oid = 7,
                         products = [\<lparr>item_oid = 8, item_id = Val ''p1'', quantity = Absent\<rparr>,
                                     \<lparr>item_oid = 9, item_id = Val ''p2'', quantity = Absent\<rparr>],
                         total = Val 15\<rparr>],
         next_oid = 10\<rparr>,
        Response 201
          (OrderJson \<lparr>order_oid = 7,
                       products = [\<lparr>item_oid = 8, item_id = Val ''p1'', quantity = Absent\<rparr>,
                                   \<lparr>item_oid = 9, item_id = Val ''p2'', quantity = Absent\<rparr>],
                       total = Val 15\<rparr>))"
proof -
  have t: "checkout_total (map item_of [(1, ''p1'', ''Widget'', Finite 10), (2, ''p2'', ''Gadget'', Finite 5)])
      = Inr (JNum (Finite 15))"
    using num_add_of_int[of 0 10] num_add_of_int[of 10 5]
    by (simp add: checkout_total_def item_of_def cart_item_def js_plus_def)
  show ?thesis
    using t checkout_issues_one_order_request
            [of "[(1, ''p1'', ''Widget'', Finite 10), (2, ''p2'', ''Gadget'', Finite 5)]"
                fetch_offline
                "\<lparr>cart = map item_of [(1, ''p1'', ''Widget'', Finite 10), (2, ''p2'', ''Gadget'', Finite 5)]\<rparr>"
                "\<lparr>product_coll = [], order_coll = [], next_oid = 7\<rparr>"]
    by (simp add: handleCheckout_def fetch_offline_def order_request_def item_of_def cart_item_def
        elem_json_def prop_json_def post_orders_def Order_new_def cast_line_def Let_def)
qed

text \<open>
  Claim C6, as amended. For every request body whose \<open>products\<close> is an array of objects
  that fit the line schema as they are (\<open>id\<close> missing, \<open>null\<close> or a string,
  \<open>quantity\<close> missing, \<open>null\<close> or a number, no \<open>_id\<close> of their own) and whose
  \<open>total\<close> is missing, \<open>null\<close> or a number, \<open>createOrder\<close>, with the database
  answering, persists the total as given and, for each element of \<open>products\<close> in order,
  its \<open>id\<close> and \<open>quantity\<close> as given. The total is not recomputed or checked
  against the products, and the product collection is not consulted. The response is 201
  with the created record, which has a generated identifier and has been added to the
  order collection.
\<close>

theorem createOrder_stores_schema_part:
  assumes "map_of kvs ''products'' = Some (JsonArr js)"
    and "\<forall>j\<in>set js. fits_line j"
    and "number_or_missing (map_of kvs ''total'')"
  shows "\<exists>ord. post_orders Up srv (JsonObj kvs)
               = (srv\<lparr>next_oid := Suc (next_oid srv) + length js,
                      order_coll := order_coll srv @ [ord]\<rparr>,
                  Response 201 (OrderJson ord))
           \<and> order_oid ord = next_oid srv
           \<and> map line_fields (products ord) = map schema_part js
           \<and> path_json ''total'' JsonNum (total ord) = prop_json (''total'', map_of kvs ''total'')"
proof -
  obtain ls where ls: "cast_lines (Suc (next_oid srv)) js = Inr ls"
      "map line_fields ls = map schema_part js"
    using cast_lines_fit[OF assms(2)] by blast
  obtain t where t: "castNumber (map_of kvs ''total'') = Inr t"
      "path_json ''total'' JsonNum t = prop_json (''total'', map_of kvs ''total'')"
    using castNumber_fits[OF assms(3)] by blast
  have "post_orders Up srv (JsonObj kvs)
      = (srv\<lparr>next_oid := Suc (next_oid srv) + length js,
             order_coll := order_coll srv @ [\<lparr>order_oid = next_oid srv, products = ls, total = t\<rparr>]\<rparr>,
         Response 201 (OrderJson \<lparr>order_oid = next_oid srv, products = ls, total = t\<rparr>))"
    using assms(1) ls(1) t(1) by (simp add: post_orders_def Order_new_def Let_def)
  then show ?thesis using ls(2) t(2) by simp
qed

theorem createOrder_stores_schema_part_witness:
  "post_orders Up \<lparr>product_coll = [], order_coll = [], next_oid = 7\<rparr>
      (JsonObj [(''products'', JsonArr [JsonObj [(''id'', JsonStr ''p1''), (''quantity'', JsonNum 2)]]),
                (''total'', JsonNum (5623870034678907 / 281474976710656))])
     = (\<lparr>product_coll = [],
         order_coll = [\<lparr>order_oid = 7,
                         products = [\<lparr>item_oid = 8, item_id = Val ''p1'', quantity = Val 2\<rparr>],
                         total = Val (5623870034678907 / 281474976710656)\<rparr>],
         next_oid = 9\<rparr>,
        Response 201
          (OrderJson \<lparr>order_oid = 7,
                       products = [\<lparr>item_oid = 8, item_id = Val ''p1'', quantity = Val 2\<rparr>],
                       total = Val (5623870034678907 / 281474976710656)\<rparr>))
   \<and> map line_fields [\<lparr>item_oid = 8, item_id = Val ''p1'', quantity = Val 2\<rparr>]
     = [[(''id'', JsonStr ''p1''), (''quantity'', JsonNum 2)]]"
  using createOrder_stores_schema_part
          [of "[(''products'', JsonArr [JsonObj [(''id'', JsonStr ''p1''), (''quantity'', JsonNum 2)]]),
                (''total'', JsonNum (5623870034678907 / 281474976710656))]"
              "[JsonObj [(''id'', JsonStr ''p1''), (''quantity'', JsonNum 2)]]"
              "\<lparr>product_coll = [], order_coll = [], next_oid = 7\<rparr>"]
  by (simp add: post_orders_def Order_new_def cast_line_def line_fields_def path_json_def
      prop_json_def Let_def)

text \<open>
  The claim as stated fails: the properties of an element that the line schema has no
  path for are not persisted. For the body that this program's own checkout sends for a
  cart of one entry, the persisted line holds the \<open>id\<close> only, not the \<open>name\<close> and
  the \<open>price\<close> the caller gave.
\<close>

theorem createOrder_drops_other_properties:
  "post_orders Up \<lparr>product_coll = [], order_coll = [], next_oid = 7\<rparr>
      (JsonObj [(''products'',
                 JsonArr [JsonObj [(''id'', JsonStr ''p1''), (''name'', JsonStr ''Widget''),
                                   (''price'', JsonNum 10)]]),
                (''total'', JsonNum 10)])
     = (\<lparr>product_coll = [],
         order_coll = [\<lparr>order_oid = 7,
                         products = [\<lparr>item_oid = 8, item_id = Val ''p1'', quantity = Absent\<rparr>],
                         total = Val 10\<rparr>],
         next_oid = 9\<rparr>,
        Response 201
          (OrderJson \<lparr>order_oid = 7,
                       products = [\<lparr>item_oid = 8, item_id = Val ''p1'', quantity = Absent\<rparr>],
                       total = Val 10\<rparr>))
   \<and> map line_fields [\<lparr>item_oid = 8, item_id = Val ''p1'', quantity = Absent\<rparr>]
     \<noteq> [[(''id'', JsonStr ''p1''), (''name'', JsonStr ''Widget''), (''price'', JsonNum 10)]]"
  by (simp add: post_orders_def Order_new_def cast_line_def line_fields_def path_json_def)

text \<open>
  Claim C7. For every name and price, \<open>POST /products\<close> with the body
  \<open>{name, price}\<close> responds 201 with the created record, which has a generated
  identifier and the name and price given; and after any further requests, \<open>GET
  /products\<close> returns a list in which that record appears, with the same name and price.
  The database answers both requests. (The witness uses the binary64 value of 9.99.)
\<close>

theorem created_product_is_listed:
  "post_products Up srv (JsonObj [(''name'', JsonStr nm), (''price'', JsonNum pr)])
     = (srv\<lparr>next_oid := Suc (next_oid srv),
            product_coll := product_coll srv
               @ [\<lparr>product_oid = next_oid srv, name = Val nm, price = Val pr\<rparr>]\<rparr>,
        Response 201 (ProductJson \<lparr>product_oid = next_oid srv, name = Val nm, price = Val pr\<rparr>))
   \<and> (\<exists>ps. get_products Up
             (foldl serve
                (fst (post_products Up srv (JsonObj [(''name'', JsonStr nm), (''price'', JsonNum pr)])))
                rs)
           = Response 200 (ProductsJson ps)
         \<and> \<lparr>product_oid = next_oid srv, name = Val nm, price = Val pr\<rparr> \<in> set ps)"
proof -
  let ?b = "JsonObj [(''name'', JsonStr nm), (''price'', JsonNum pr)]"
  let ?p = "\<lparr>product_oid = next_oid srv, name = Val nm, price = Val pr\<rparr>"
  have post: "post_products Up srv ?b
     = (srv\<lparr>next_oid := Suc (next_oid srv), product_coll := product_coll srv @ [?p]\<rparr>,
        Response 201 (ProductJson ?p))"
    by (simp add: post_products_def Product_new_def Let_def)
  have "?p \<in> set (product_coll (fst (post_products Up srv ?b)))"
    by (simp add: post)
  then have "?p \<in> set (product_coll (foldl serve (fst (post_products Up srv ?b)) rs))"
    using foldl_serve_keeps by blast
  then show ?thesis
    using post by (simp add: get_products_def)
qed

theorem created_product_is_listed_witness:
  "post_products Up \<lparr>product_coll = [], order_coll = [], next_oid = 7\<rparr>
      (JsonObj [(''name'', JsonStr ''Widget''), (''price'', JsonNum (5623870034678907 / 562949953421312))])
     = (\<lparr>product_coll = [\<lparr>product_oid = 7, name = Val ''Widget'', price = Val (5623870034678907 / 562949953421312)\<rparr>],
         order_coll = [], next_oid = 8\<rparr>,
        Response 201 (ProductJson \<lparr>product_oid = 7, name = Val ''Widget'', price = Val (5623870034678907 / 562949953421312)\<rparr>))
   \<and> get_products Up
       (fst (post_products Up \<lparr>product_coll = [], order_coll = [], next_oid = 7\<rparr>
          (JsonObj [(''name'', JsonStr ''Widget''), (''price'', JsonNum (5623870034678907 / 562949953421312))])))
     = Response 200
        (ProductsJson [\<lparr>product_oid = 7, name = Val ''Widget'', price = Val (5623870034678907 / 562949953421312)\<rparr>])"
  using created_product_is_listed
          [of "\<lparr>product_coll = [], order_coll = [], next_oid = 7\<rparr>" "''Widget''" "5623870034678907 / 562949953421312" "[]"]
  by (simp add: get_products_def)

text \<open>
  Claim C9, as amended. For every request body that does not set \<open>_id\<close> or \<open>__v\<close>
  and in which \<open>name\<close> is missing, \<open>null\<close> or a string: when \<open>price\<close> is missing,
  \<open>null\<close> or a number, \<open>createProduct\<close> validates nothing: whatever the values (a
  missing or negative price, an empty name), the product is accepted with status 201 and
  stored as given, a missing property staying unset and a \<open>null\<close> staying \<open>null\<close>.
  When \<open>price\<close> is an object (without an \<open>_id\<close> of its own), it cannot be cast to
  the number that the schema declares: \<open>save()\<close> fails with a validation error, whether
  the database answers or not, no response is sent and both collections stay as they
  were.
\<close>

theorem createProduct_stores_fitting_input:
  assumes "map_of kvs ''_id'' = None" and "map_of kvs ''__v'' = None"
    and "string_or_missing (map_of kvs ''name'')"
  shows "(number_or_missing (map_of kvs ''price'') \<longrightarrow>
           (\<exists>p. post_products Up srv (JsonObj kvs)
                  = (srv\<lparr>next_oid := Suc (next_oid srv), product_coll := product_coll srv @ [p]\<rparr>,
                     Response 201 (ProductJson p))
              \<and> product_oid p = next_oid srv
              \<and> path_json ''name'' JsonStr (name p) = prop_json (''name'', map_of kvs ''name'')
              \<and> path_json ''price'' JsonNum (price p) = prop_json (''price'', map_of kvs ''price'')))
       \<and> (\<forall>pkvs. map_of kvs ''price'' = Some (JsonObj pkvs) \<and> map_of pkvs ''_id'' = None \<longrightarrow>
             post_products be srv (JsonObj kvs)
               = (srv\<lparr>next_oid := Suc (next_oid srv)\<rparr>, NoResponse ValidationError)
             \<and> product_coll (fst (post_products be srv (JsonObj kvs))) = product_coll srv
             \<and> order_coll (fst (post_products be srv (JsonObj kvs))) = order_coll srv)"
proof (intro conjI allI impI)
  obtain nm where nm: "castString (map_of kvs ''name'') = Inr nm"
      "path_json ''name'' JsonStr nm = prop_json (''name'', map_of kvs ''name'')"
    using castString_fits[OF assms(3)] by blast
  show "\<exists>p. post_products Up srv (JsonObj kvs)
               = (srv\<lparr>next_oid := Suc (next_oid srv), product_coll := product_coll srv @ [p]\<rparr>,
                  Response 201 (ProductJson p))
           \<and> product_oid p = next_oid srv
           \<and> path_json ''name'' JsonStr (name p) = prop_json (''name'', map_of kvs ''name'')
           \<and> path_json ''price'' JsonNum (price p) = prop_json (''price'', map_of kvs ''price'')"
    if fits: "number_or_missing (map_of kvs ''price'')"
  proof -
    obtain pr where pr: "castNumber (map_of kvs ''price'') = Inr pr"
        "path_json ''price'' JsonNum pr = prop_json (''price'', map_of kvs ''price'')"
      using castNumber_fits[OF fits] by blast
    have "post_products Up srv (JsonObj kvs)
        = (srv\<lparr>next_oid := Suc (next_oid srv),
               product_coll := product_coll srv @ [\<lparr>product_oid = next_oid srv, name = nm, price = pr\<rparr>]\<rparr>,
           Response 201 (ProductJson \<lparr>product_oid = next_oid srv, name = nm, price = pr\<rparr>))"
      using assms(1,2) nm(1) pr(1) by (simp add: post_products_def Product_new_def Let_def)
    then show ?thesis using nm(2) pr(2) by simp
  qed
  fix pkvs
  assume obj: "map_of kvs ''price'' = Some (JsonObj pkvs) \<and> map_of pkvs ''_id'' = None"
  have new: "Product_new (next_oid srv) (JsonObj kvs) = Inl ValidationError"
    using assms(1,2) nm(1) obj by (simp add: Product_new_def)
  show rej: "post_products be srv (JsonObj kvs)
      = (srv\<lparr>next_oid := Suc (next_oid srv)\<rparr>, NoResponse ValidationError)"
    by (simp add: post_products_def new Let_def)
  show "product_coll (fst (post_products be srv (JsonObj kvs))) = product_coll srv"
    by (simp add: rej)
  show "order_coll (fst (post_products be srv (JsonObj kvs))) = order_coll srv"
    by (simp add: rej)
qed

theorem createProduct_stores_fitting_input_witness:
  "post_products Up \<lparr>product_coll = [], order_coll = [], next_oid = 7\<rparr>
      (JsonObj [(''name'', JsonStr '''')])
     = (\<lparr>product_coll = [\<lparr>product_oid = 7, name = Val '''', price = Absent\<rparr>],
         order_coll = [], next_oid = 8\<rparr>,
        Response 201 (ProductJson \<lparr>product_oid = 7, name = Val '''', price = Absent\<rparr>))
   \<and> post_products Up \<lparr>product_coll = [], order_coll = [], next_oid = 7\<rparr>
      (JsonObj [(''name'', JsonNull), (''price'', JsonNum (- 5))])
     = (\<lparr>product_coll = [\<lparr>product_oid = 7, name = Null, price = Val (- 5)\<rparr>],
         order_coll = [], next_oid = 8\<rparr>,
        Response 201 (ProductJson \<lparr>product_oid = 7, name = Null, price = Val (- 5)\<rparr>))
   \<and> post_products Down \<lparr>product_coll = [], order_coll = [], next_oid = 7\<rparr>
      (JsonObj [(''name'', JsonStr ''Gadget''), (''price'', JsonObj [(''amount'', JsonNum 5)])])
     = (\<lparr>product_coll = [], order_coll = [], next_oid = 8\<rparr>, NoResponse ValidationError)"
  using createProduct_stores_fitting_input
          [of "[(''name'', JsonStr '''')]" "\<lparr>product_coll = [], order_coll = [], next_oid = 7\<rparr>" Up]
        createProduct_stores_fitting_input
          [of "[(''name'', JsonNull), (''price'', JsonNum (- 5))]"
              "\<lparr>product_coll = [], order_coll = [], next_oid = 7\<rparr>" Up]
        createProduct_stores_fitting_input
          [of "[(''name'', JsonStr ''Gadget''), (''price'', JsonObj [(''amount'', JsonNum 5)])]"
              "\<lparr>product_coll = [], order_coll = [], next_oid = 7\<rparr>" Down,
           THEN conjunct2, THEN spec, of "[(''amount'', JsonNum 5)]"]
  by (simp add: post_products_def Product_new_def)

text \<open>
  The claim as stated fails: the schema types its paths, and an object cannot be cast to
  the number that \<open>price\<close> is declared to be. A body whose \<open>price\<close> is the empty
  object gets no 201 and nothing is stored.
\<close>

theorem createProduct_rejects_uncastable_price:
  "post_products Up \<lparr>product_coll = [], order_coll = [], next_oid = 7\<rparr>
      (JsonObj [(''name'', JsonStr ''Widget''), (''price'', JsonObj [])])
   = (\<lparr>product_coll = [], order_coll = [], next_oid = 8\<rparr>, NoResponse ValidationError)"
  by (simp add: post_products_def Product_new_def)

end
